theory Spec2Isabelle
  imports Main "HOL-Library.Word" "HOL-Library.Signed_Division"
begin

section \<open>Machine integers of rt-tester\<close>

text \<open>
  The program is C++ built for Linux on x86-64 (the file's header names WSL as the
  target system), where \<open>long\<close> and \<open>time_t\<close> are 64-bit two's complement integers
  and \<open>int\<close> has 32 bits. A \<open>long\<close> is a \<open>64 word\<close> read through \<open>sint\<close>. The
  language leaves signed overflow undefined; the model gives it the wrap-around of the
  target's machine arithmetic, and the theorems that depend on exact arithmetic carry
  the hypothesis that the operation stays in range.
\<close>

type_synonym long = "64 word"

definition LONG_MAX :: int where
  "LONG_MAX = 9223372036854775807"

definition LONG_MIN :: int where
  "LONG_MIN = - 9223372036854775808"

text \<open>
  The operators \<open>/\<close> and \<open>%\<close> on \<open>long\<close>: the quotient truncates towards zero and the
  remainder takes the sign of the dividend. A zero divisor, and \<open>LONG_MIN\<close> divided by
  \<open>-1\<close>, raise the processor's divide error (the process dies of SIGFPE): \<open>None\<close>.
\<close>

definition long_div :: "long \<Rightarrow> long \<Rightarrow> long option" where
  "long_div a b =
     (if b = 0 \<or> (sint a = LONG_MIN \<and> sint b = - 1) then None
      else Some (word_of_int (sint a sdiv sint b)))"

definition long_mod :: "long \<Rightarrow> long \<Rightarrow> long option" where
  "long_mod a b =
     (if b = 0 \<or> (sint a = LONG_MIN \<and> sint b = - 1) then None
      else Some (word_of_int (sint a smod sint b)))"

section \<open>Data model\<close>

text \<open>\<open>struct timespec\<close> of the C library: seconds and nanoseconds, both \<open>long\<close>.\<close>

record timespec =
  tv_sec :: long
  tv_nsec :: long

text \<open>
  Modelled from the spec: the header \<open>rt-tester.h\<close>, which declares
  \<open>struct period_info\<close> and \<open>struct task_data\<close>, is not among the sources. The spec
  gives PeriodInfo the fields \<open>period_ns\<close>, \<open>next_period\<close> (a timestamp) and
  \<open>print_rate\<close> (a derived integer divisor), and TaskConfig the fields \<open>period_ns\<close> and
  \<open>print_per_sec\<close>; the source assigns to and from them values of type \<open>long\<close>.
\<close>

record period_info =
  next_period :: timespec
  period_ns :: long
  print_rate :: long

record task_data =
  td_period_ns :: long
  td_print_per_sec :: long

text \<open>A timestamp read as one number of nanoseconds.\<close>

definition total_ns :: "timespec \<Rightarrow> int" where
  "total_ns t = sint (tv_sec t) * 1000000000 + sint (tv_nsec t)"

section \<open>Period arithmetic\<close>

text \<open>
  \<open>diff_nanosec\<close> computes in \<open>long\<close> and returns the result as \<open>long double\<close>. The
  x87 extended format has a 64-bit significand, so the conversion is exact and the
  value returned is the integer \<open>sint\<close> of the \<open>long\<close> result.
\<close>

definition diff_nanosec :: "timespec \<Rightarrow> timespec \<Rightarrow> int" where
  "diff_nanosec time1 time0 =
     sint (1000000000 * (tv_sec time1 - tv_sec time0) + (tv_nsec time1 - tv_nsec time0))"

text \<open>The \<open>while\<close> loop of \<open>inc_period\<close>, on the timestamp it normalises.\<close>

function inc_period_loop :: "timespec \<Rightarrow> timespec" where
  "inc_period_loop t =
     (if 1000000000 \<le>s tv_nsec t
      then inc_period_loop (t\<lparr>tv_sec := tv_sec t + 1, tv_nsec := tv_nsec t - 1000000000\<rparr>)
      else t)"
  by pat_completeness auto

termination inc_period_loop
proof (relation "measure (\<lambda>t. nat (sint (tv_nsec t)))")
  show "wf (measure (\<lambda>t. nat (sint (tv_nsec t))))"
    by simp
next
  fix t :: timespec
  assume "1000000000 \<le>s tv_nsec t"
  then have ge: "1000000000 \<le> sint (tv_nsec t)"
    by (simp add: word_sle_eq)
  have "sint (tv_nsec t) < 2 ^ 63"
    using sint_lt [of "tv_nsec t"] by simp
  then have "signed_take_bit 63 (sint (tv_nsec t) - 1000000000) = sint (tv_nsec t) - 1000000000"
    using ge by (intro signed_take_bit_int_eq_self) simp_all
  then have "sint (tv_nsec t - 1000000000) = sint (tv_nsec t) - 1000000000"
    by (simp add: sint_word_diff)
  then show "(t\<lparr>tv_sec := tv_sec t + 1, tv_nsec := tv_nsec t - 1000000000\<rparr>, t)
      \<in> measure (\<lambda>t. nat (sint (tv_nsec t)))"
    using ge by simp
qed

definition inc_period :: "period_info \<Rightarrow> period_info" where
  "inc_period pinfo =
     pinfo\<lparr>next_period :=
       inc_period_loop ((next_period pinfo)
         \<lparr>tv_nsec := tv_nsec (next_period pinfo) + period_ns pinfo\<rparr>)\<rparr>"

text \<open>
  \<open>periodic_task_init\<close> writes all three fields of \<open>*pinfo\<close>; \<open>now\<close> is what
  \<open>clock_gettime(CLOCK_MONOTONIC)\<close> stores. The product and the quotient are computed
  in \<open>long\<close>; a zero product stops the process with a divide error before the clock
  is read.
\<close>

definition periodic_task_init :: "long \<Rightarrow> long \<Rightarrow> timespec \<Rightarrow> period_info option" where
  "periodic_task_init period_ns_arg print_per_sec now =
     (if print_per_sec = 0
      then Some \<lparr>next_period = now, period_ns = period_ns_arg, print_rate = 0\<rparr>
      else (case long_div 1000000000 (period_ns_arg * print_per_sec) of
              None \<Rightarrow> None
            | Some r \<Rightarrow> Some \<lparr>next_period = now, period_ns = period_ns_arg, print_rate = r\<rparr>))"

section \<open>One cycle of the periodic task\<close>

text \<open>
  What \<open>do_rt_task\<close> writes to the console: nothing, the routine line (which
  overwrites the current line) or the red line that ends with a newline. Each line
  carries \<open>delay_ns\<close> and \<open>task_ns\<close>; the local time of day and the formatting in
  milliseconds are left out.
\<close>

datatype report = No_line | Routine_line int int | Exceeded_line int int

text \<open>
  The local \<open>period_exceeded\<close>: \<open>delay_ns > pinfo->period_ns\<close>, a comparison of
  \<open>long double\<close> values that hold both integers exactly.
\<close>

definition period_exceeded :: "period_info \<Rightarrow> timespec \<Rightarrow> bool" where
  "period_exceeded pinfo start =
     (sint (period_ns pinfo) < diff_nanosec start (next_period pinfo))"

text \<open>
  The local \<open>print_info\<close>. \<open>&&\<close> evaluates its right operand only when
  \<open>print_rate\<close> is not zero; the division and the remainder can then raise the divide
  error.
\<close>

definition print_info :: "period_info \<Rightarrow> bool option" where
  "print_info pinfo =
     (if print_rate pinfo = 0 then Some False
      else (case long_div (tv_nsec (next_period pinfo)) (period_ns pinfo) of
              None \<Rightarrow> None
            | Some q \<Rightarrow>
                (case long_mod q (print_rate pinfo) of
                   None \<Rightarrow> None
                 | Some r \<Rightarrow> Some (r = 0))))"

text \<open>
  \<open>start\<close> and \<open>end_t\<close> are the two readings of the monotonic clock. Both flags are
  computed before anything is printed.
\<close>

definition do_rt_task :: "period_info \<Rightarrow> timespec \<Rightarrow> timespec \<Rightarrow> report option" where
  "do_rt_task pinfo start end_t =
     (let delay_ns = diff_nanosec start (next_period pinfo) in
      case print_info pinfo of
        None \<Rightarrow> None
      | Some pr \<Rightarrow>
          (let task_ns = diff_nanosec end_t start in
           Some (if period_exceeded pinfo start then Exceeded_line delay_ns task_ns
                 else if pr then Routine_line delay_ns task_ns
                 else No_line)))"

text \<open>
  The calls the worker makes to the system, in order: a console report, and
  \<open>clock_nanosleep\<close> with its clock, its flags and the timestamp passed. The value
  \<open>clock_nanosleep\<close> returns is discarded by the source, so it is no input of the model;
  a wake before the deadline shows as an early \<open>start\<close> reading of the next cycle.
\<close>

datatype clockid = CLOCK_REALTIME | CLOCK_MONOTONIC

definition TIMER_ABSTIME :: int where
  "TIMER_ABSTIME = 1"

datatype event = Report report | Clock_nanosleep clockid int timespec

definition wait_rest_of_period :: "period_info \<Rightarrow> period_info \<times> event" where
  "wait_rest_of_period pinfo =
     (let pinfo' = inc_period pinfo
      in (pinfo', Clock_nanosleep CLOCK_MONOTONIC TIMER_ABSTIME (next_period pinfo')))"

text \<open>
  The \<open>while (1)\<close> loop of \<open>simple_cyclic_task\<close> never ends. The model runs one
  iteration for each pair of clock readings it is given and returns the state and the
  calls made so far; \<open>None\<close> is the process killed by a divide error.
\<close>

fun simple_cyclic_loop ::
  "period_info \<Rightarrow> (timespec \<times> timespec) list \<Rightarrow> (period_info \<times> event list) option" where
  "simple_cyclic_loop pinfo [] = Some (pinfo, [])"
| "simple_cyclic_loop pinfo ((start, end_t) # clocks) =
     (case do_rt_task pinfo start end_t of
        None \<Rightarrow> None
      | Some r \<Rightarrow>
          (case wait_rest_of_period pinfo of
             (pinfo', ev) \<Rightarrow>
               (case simple_cyclic_loop pinfo' clocks of
                  None \<Rightarrow> None
                | Some (pinfo'', evs) \<Rightarrow> Some (pinfo'', Report r # ev # evs))))"


section \<open>Startup\<close>

text \<open>
  \<open>getopt\<close> belongs to the C library. The model takes what its successive calls
  return for the option string \<open>"p:r:"\<close> until it returns \<open>-1\<close>: the option \<open>p\<close> or
  \<open>r\<close> with its argument already converted (\<open>atof(optarg) * 1000000\<close> stored in a
  \<open>long\<close>, and \<open>atol(optarg)\<close>), or any other character, which \<open>getopt\<close> returns for
  an option it does not recognise and for a missing argument.
\<close>

datatype getopt_result = Opt_p long | Opt_r long | Opt_unknown

text \<open>The \<open>while\<close> loop over \<open>getopt\<close>; \<open>None\<close> is the \<open>default\<close> branch.\<close>

fun parse_opts :: "task_data \<Rightarrow> getopt_result list \<Rightarrow> task_data option" where
  "parse_opts data [] = Some data"
| "parse_opts data (Opt_p v # rest) = parse_opts (data\<lparr>td_period_ns := v\<rparr>) rest"
| "parse_opts data (Opt_r v # rest) = parse_opts (data\<lparr>td_print_per_sec := v\<rparr>) rest"
| "parse_opts data (Opt_unknown # rest) = None"

text \<open>
  The system and thread-library calls of \<open>main\<close>. Their results are the environment
  \<open>ret\<close>: \<open>mlockall\<close> fails with \<open>-1\<close>, each \<open>pthread\<close> function returns \<open>0\<close> or an
  error number.
\<close>

datatype call =
  Mlockall | Attr_init | Attr_setstacksize | Attr_setschedpolicy | Attr_setschedparam
  | Attr_setinheritsched | Pthread_create | Pthread_join

text \<open>
  What \<open>main\<close> does that can be seen from outside: the usage line on standard error, a
  call, a message on standard output, and the worker thread that a successful
  \<open>pthread_create\<close> starts on the task data.
\<close>

datatype main_event = Usage | Call call | Message string | Thread_running task_data

definition EXIT_FAILURE :: int where
  "EXIT_FAILURE = 1"

text \<open>
  \<open>main\<close> returns the events in order and the value given to \<open>exit\<close> or returned.
\<close>

definition main :: "getopt_result list \<Rightarrow> (call \<Rightarrow> int) \<Rightarrow> main_event list \<times> int" where
  "main opts ret =
     (case parse_opts \<lparr>td_period_ns = 1000000, td_print_per_sec = 5\<rparr> opts of
        None \<Rightarrow> ([Usage], EXIT_FAILURE)
      | Some data \<Rightarrow>
          if ret Mlockall = - 1 then
            ([Call Mlockall, Message ''mlockall failed''], - 2)
          else if ret Attr_init \<noteq> 0 then
            ([Call Mlockall, Call Attr_init, Message ''init pthread attributes failed''],
             ret Attr_init)
          else if ret Attr_setstacksize \<noteq> 0 then
            ([Call Mlockall, Call Attr_init, Call Attr_setstacksize,
              Message ''pthread setstacksize failed''],
             ret Attr_setstacksize)
          else if ret Attr_setschedpolicy \<noteq> 0 then
            ([Call Mlockall, Call Attr_init, Call Attr_setstacksize, Call Attr_setschedpolicy,
              Message ''pthread setschedpolicy failed''],
             ret Attr_setschedpolicy)
          else if ret Attr_setschedparam \<noteq> 0 then
            ([Call Mlockall, Call Attr_init, Call Attr_setstacksize, Call Attr_setschedpolicy,
              Call Attr_setschedparam, Message ''pthread setschedparam failed''],
             ret Attr_setschedparam)
          else if ret Attr_setinheritsched \<noteq> 0 then
            ([Call Mlockall, Call Attr_init, Call Attr_setstacksize, Call Attr_setschedpolicy,
              Call Attr_setschedparam, Call Attr_setinheritsched,
              Message ''pthread setinheritsched failed''],
             ret Attr_setinheritsched)
          else if ret Pthread_create \<noteq> 0 then
            ([Call Mlockall, Call Attr_init, Call Attr_setstacksize, Call Attr_setschedpolicy,
              Call Attr_setschedparam, Call Attr_setinheritsched, Call Pthread_create,
              Message ''create pthread failed''],
             ret Pthread_create)
          else if ret Pthread_join \<noteq> 0 then
            ([Call Mlockall, Call Attr_init, Call Attr_setstacksize, Call Attr_setschedpolicy,
              Call Attr_setschedparam, Call Attr_setinheritsched, Call Pthread_create,
              Thread_running data, Call Pthread_join, Message ''join pthread failed''],
             ret Pthread_join)
          else
            ([Call Mlockall, Call Attr_init, Call Attr_setstacksize, Call Attr_setschedpolicy,
              Call Attr_setschedparam, Call Attr_setinheritsched, Call Pthread_create,
              Thread_running data, Call Pthread_join],
             ret Pthread_join))"

section \<open>Vocabulary of the properties\<close>

text \<open>
  The order in which the spec lists the startup steps, and when a step has failed.
\<close>

definition setup_order :: "call list" where
  "setup_order =
     [Mlockall, Attr_init, Attr_setstacksize, Attr_setschedpolicy, Attr_setschedparam,
      Attr_setinheritsched, Pthread_create]"

definition failed :: "(call \<Rightarrow> int) \<Rightarrow> call \<Rightarrow> bool" where
  "failed ret c = (if c = Mlockall then ret c = - 1 else ret c \<noteq> 0)"

fun calls_of :: "main_event list \<Rightarrow> call list" where
  "calls_of [] = []"
| "calls_of (Call c # evs) = c # calls_of evs"
| "calls_of (e # evs) = calls_of evs"

fun thread_started :: "main_event list \<Rightarrow> bool" where
  "thread_started [] = False"
| "thread_started (Thread_running d # evs) = True"
| "thread_started (e # evs) = thread_started evs"



fun is_exceeded :: "report \<Rightarrow> bool" where
  "is_exceeded (Exceeded_line d t) = True"
| "is_exceeded r = False"


section \<open>Word arithmetic that stays in range\<close>

declare inc_period_loop.simps [simp del]

lemma sint_sub_second:
  fixes n :: long
  assumes "1000000000 \<le> sint n"
  shows "sint (n - 1000000000) = sint n - 1000000000"
proof -
  have "sint n < 2 ^ 63"
    using sint_lt [of n] by simp
  then have "signed_take_bit 63 (sint n - 1000000000) = sint n - 1000000000"
    using assms by (intro signed_take_bit_int_eq_self) simp_all
  then show ?thesis
    by (simp add: sint_word_diff)
qed

lemma inc_period_loop_small:
  "sint (tv_nsec t) < 1000000000 \<Longrightarrow> inc_period_loop t = t"
  by (subst inc_period_loop.simps) (simp add: word_sle_eq)

lemma inc_period_loop_closed:
  "0 \<le> sint (tv_nsec t) \<Longrightarrow>
   inc_period_loop t =
     t\<lparr>tv_sec := tv_sec t + word_of_int (sint (tv_nsec t) div 1000000000),
       tv_nsec := word_of_int (sint (tv_nsec t) mod 1000000000)\<rparr>"
proof (induction t rule: inc_period_loop.induct)
  case (1 t)
  let ?n = "sint (tv_nsec t)"
  show ?case
  proof (cases "1000000000 \<le> ?n")
    case False
    then have "?n div 1000000000 = 0" "?n mod 1000000000 = ?n"
      using 1(2) by simp_all
    then show ?thesis
      using False by (simp add: inc_period_loop_small)
  next
    case True
    let ?t' = "t\<lparr>tv_sec := tv_sec t + 1, tv_nsec := tv_nsec t - 1000000000\<rparr>"
    have n': "sint (tv_nsec ?t') = ?n - 1000000000"
      using True by (simp add: sint_sub_second)
    have sle: "1000000000 \<le>s tv_nsec t"
      using True by (simp add: word_sle_eq)
    have "inc_period_loop t = inc_period_loop ?t'"
      using sle by (subst inc_period_loop.simps) simp
    also have "\<dots> = ?t'\<lparr>tv_sec := tv_sec ?t' + word_of_int (sint (tv_nsec ?t') div 1000000000),
       tv_nsec := word_of_int (sint (tv_nsec ?t') mod 1000000000)\<rparr>"
      using "1.IH" [OF sle] True n' by simp
    also have "\<dots> = t\<lparr>tv_sec := tv_sec t + word_of_int (?n div 1000000000),
       tv_nsec := word_of_int (?n mod 1000000000)\<rparr>"
    proof -
      have d: "(?n - 1000000000) div 1000000000 = ?n div 1000000000 - 1"
        by simp
      have m: "(?n - 1000000000) mod 1000000000 = ?n mod 1000000000"
        by (metis minus_mod_self2)
      show ?thesis
        unfolding n' d m by simp
    qed
    finally show ?thesis .
  qed
qed

lemma sint_of_int_small:
  "- 9223372036854775808 \<le> i \<Longrightarrow> i \<le> 9223372036854775807 \<Longrightarrow> sint (word_of_int i :: long) = i"
  by (simp add: sint_sbintrunc' signed_take_bit_int_eq_self)

lemma sint_add_exact:
  fixes a b :: long
  shows "- 9223372036854775808 \<le> sint a + sint b \<Longrightarrow> sint a + sint b \<le> 9223372036854775807 \<Longrightarrow> sint (a + b) = sint a + sint b"
  by (simp add: sint_word_add signed_take_bit_int_eq_self)


lemma inc_period_fields [simp]:
  "period_ns (inc_period p) = period_ns p" "print_rate (inc_period p) = print_rate p"
  by (simp_all add: inc_period_def)

lemma inc_period_closed:
  assumes "0 \<le> sint (tv_nsec (next_period p)) + sint (period_ns p)"
    and "sint (tv_nsec (next_period p)) + sint (period_ns p) \<le> LONG_MAX"
  shows "next_period (inc_period p) =
     (next_period p)\<lparr>tv_sec := tv_sec (next_period p) +
          word_of_int ((sint (tv_nsec (next_period p)) + sint (period_ns p)) div 1000000000),
       tv_nsec := word_of_int ((sint (tv_nsec (next_period p)) + sint (period_ns p)) mod 1000000000)\<rparr>"
proof -
  have s: "sint (tv_nsec (next_period p) + period_ns p) =
      sint (tv_nsec (next_period p)) + sint (period_ns p)"
    using assms by (intro sint_add_exact) (simp_all add: LONG_MAX_def)
  show ?thesis
    using assms(1) by (simp add: inc_period_def inc_period_loop_closed s)
qed

lemma inc_period_nsec:
  assumes "0 \<le> sint (tv_nsec (next_period p)) + sint (period_ns p)"
    and "sint (tv_nsec (next_period p)) + sint (period_ns p) \<le> LONG_MAX"
  shows "sint (tv_nsec (next_period (inc_period p))) =
     (sint (tv_nsec (next_period p)) + sint (period_ns p)) mod 1000000000"
proof -
  let ?m = "(sint (tv_nsec (next_period p)) + sint (period_ns p)) mod 1000000000"
  have "0 \<le> ?m" "?m < 1000000000"
    by simp_all
  then have "sint (word_of_int ?m :: long) = ?m"
    by (intro sint_of_int_small) linarith+
  then show ?thesis
    by (simp add: inc_period_closed [OF assms])
qed

lemma inc_period_sec:
  assumes "0 \<le> sint (tv_nsec (next_period p)) + sint (period_ns p)"
    and "sint (tv_nsec (next_period p)) + sint (period_ns p) \<le> LONG_MAX"
    and "sint (tv_sec (next_period p)) +
       (sint (tv_nsec (next_period p)) + sint (period_ns p)) div 1000000000 \<le> LONG_MAX"
  shows "sint (tv_sec (next_period (inc_period p))) =
     sint (tv_sec (next_period p)) +
       (sint (tv_nsec (next_period p)) + sint (period_ns p)) div 1000000000"
proof -
  let ?q = "(sint (tv_nsec (next_period p)) + sint (period_ns p)) div 1000000000"
  have q: "0 \<le> ?q" "?q \<le> 9223372036854775807"
    using assms(1,2) by (simp_all add: LONG_MAX_def pos_imp_zdiv_nonneg_iff)
  then have "sint (word_of_int ?q :: long) = ?q"
    by (intro sint_of_int_small) linarith+
  moreover have "- 9223372036854775808 \<le> sint (tv_sec (next_period p))"
    using sint_ge [of "tv_sec (next_period p)"] by simp
  ultimately have "sint (tv_sec (next_period p) + word_of_int ?q) = sint (tv_sec (next_period p)) + ?q"
    using assms(3) q by (intro sint_add_exact [THEN trans]) (simp_all add: LONG_MAX_def)
  then show ?thesis
    by (simp add: inc_period_closed [OF assms(1,2)])
qed

section \<open>Repeated advances\<close>

lemma div_mod_carry:
  fixes a b :: int
  shows "a div 1000000000 + (a mod 1000000000 + b) div 1000000000 = (a + b) div 1000000000"
proof -
  have "a + b = a div 1000000000 * 1000000000 + (a mod 1000000000 + b)"
    by simp
  then have "(a + b) div 1000000000 =
      (a div 1000000000 * 1000000000 + (a mod 1000000000 + b)) div 1000000000"
    by presburger
  also have "\<dots> = a div 1000000000 + (a mod 1000000000 + b) div 1000000000"
    by (simp only: div_mult_self3)
  finally show ?thesis by simp
qed

lemma inc_period_funpow_fields [simp]:
  "period_ns ((inc_period ^^ k) p) = period_ns p"
  "print_rate ((inc_period ^^ k) p) = print_rate p"
  by (induction k) simp_all

text \<open>The nanosecond field after \<open>k\<close> advances, whatever happens to the seconds.\<close>

lemma inc_period_funpow_nsec:
  assumes "0 < sint (period_ns p)"
    and "sint (period_ns p) + 999999999 \<le> LONG_MAX"
    and "0 \<le> sint (tv_nsec (next_period p))"
    and "sint (tv_nsec (next_period p)) < 1000000000"
  shows "sint (tv_nsec (next_period ((inc_period ^^ k) p))) =
     (sint (tv_nsec (next_period p)) + int k * sint (period_ns p)) mod 1000000000"
proof (induction k)
  case 0
  show ?case using assms(3,4) by simp
next
  case (Suc k)
  let ?q = "(inc_period ^^ k) p"
  let ?a = "sint (tv_nsec (next_period p)) + int k * sint (period_ns p)"
  have n: "sint (tv_nsec (next_period ?q)) = ?a mod 1000000000"
    by (rule Suc.IH)
  have r: "0 \<le> ?a mod 1000000000" "?a mod 1000000000 < 1000000000"
    by simp_all
  have lo: "0 \<le> sint (tv_nsec (next_period ?q)) + sint (period_ns ?q)"
    using r assms(1) by (simp add: n)
  have hi: "sint (tv_nsec (next_period ?q)) + sint (period_ns ?q) \<le> LONG_MAX"
    using r assms(2) by (simp add: n)
  have "sint (tv_nsec (next_period (inc_period ?q))) =
      (?a mod 1000000000 + sint (period_ns p)) mod 1000000000"
    using inc_period_nsec [OF lo hi] by (simp add: n)
  also have "\<dots> = (?a + sint (period_ns p)) mod 1000000000"
    by (simp add: mod_add_left_eq)
  finally show ?case
    by (simp add: algebra_simps)
qed

lemma inc_period_funpow_sec:
  assumes "0 < sint (period_ns p)"
    and "sint (period_ns p) + 999999999 \<le> LONG_MAX"
    and "0 \<le> sint (tv_nsec (next_period p))"
    and "sint (tv_nsec (next_period p)) < 1000000000"
    and "sint (tv_sec (next_period p)) +
       (sint (tv_nsec (next_period p)) + int k * sint (period_ns p)) div 1000000000 \<le> LONG_MAX"
  shows "sint (tv_sec (next_period ((inc_period ^^ k) p))) =
     sint (tv_sec (next_period p)) +
       (sint (tv_nsec (next_period p)) + int k * sint (period_ns p)) div 1000000000"
  using assms(5)
proof (induction k)
  case 0
  show ?case using assms(3,4) by simp
next
  case (Suc k)
  let ?q = "(inc_period ^^ k) p"
  let ?P = "sint (period_ns p)"
  let ?a = "sint (tv_nsec (next_period p)) + int k * ?P"
  have a_Suc: "sint (tv_nsec (next_period p)) + int (Suc k) * ?P = ?a + ?P"
    by (simp add: algebra_simps)
  have mono: "?a div 1000000000 \<le> (?a + ?P) div 1000000000"
    using assms(1) by (intro zdiv_mono1) simp_all
  have bound: "sint (tv_sec (next_period p)) + (?a + ?P) div 1000000000 \<le> LONG_MAX"
    using Suc.prems unfolding a_Suc .
  have s: "sint (tv_sec (next_period ?q)) = sint (tv_sec (next_period p)) + ?a div 1000000000"
    using Suc.IH mono bound by linarith
  have n: "sint (tv_nsec (next_period ?q)) = ?a mod 1000000000"
    by (rule inc_period_funpow_nsec [OF assms(1-4)])
  have r: "0 \<le> ?a mod 1000000000" "?a mod 1000000000 < 1000000000"
    by simp_all
  have lo: "0 \<le> sint (tv_nsec (next_period ?q)) + sint (period_ns ?q)"
    using r assms(1) by (simp add: n)
  have hi: "sint (tv_nsec (next_period ?q)) + sint (period_ns ?q) \<le> LONG_MAX"
    using r assms(2) by (simp add: n)
  have carry: "?a div 1000000000 + (?a mod 1000000000 + ?P) div 1000000000 =
      (?a + ?P) div 1000000000"
    by (rule div_mod_carry)
  have fit: "sint (tv_sec (next_period ?q)) +
      (sint (tv_nsec (next_period ?q)) + sint (period_ns ?q)) div 1000000000 \<le> LONG_MAX"
    using bound carry by (simp add: s n)
  have "sint (tv_sec (next_period (inc_period ?q))) =
      sint (tv_sec (next_period p)) + ?a div 1000000000 +
        (?a mod 1000000000 + ?P) div 1000000000"
    using inc_period_sec [OF lo hi fit] by (simp add: s n)
  also have "\<dots> = sint (tv_sec (next_period p)) + (?a + ?P) div 1000000000"
    using carry by simp
  finally show ?case
    unfolding a_Suc by simp
qed

lemma inc_period_funpow_total:
  assumes "0 < sint (period_ns p)"
    and "sint (period_ns p) + 999999999 \<le> LONG_MAX"
    and "0 \<le> sint (tv_nsec (next_period p))"
    and "sint (tv_nsec (next_period p)) < 1000000000"
    and "sint (tv_sec (next_period p)) +
       (sint (tv_nsec (next_period p)) + int k * sint (period_ns p)) div 1000000000 \<le> LONG_MAX"
  shows "total_ns (next_period ((inc_period ^^ k) p)) =
     total_ns (next_period p) + int k * sint (period_ns p)"
  unfolding total_ns_def inc_period_funpow_sec [OF assms] inc_period_funpow_nsec [OF assms(1-4)]
  by (simp add: algebra_simps)

section \<open>Division and the throttle flag\<close>

lemma long_div_nonneg:
  assumes "0 \<le> sint a" and "0 < sint b"
  shows "long_div a b = Some (word_of_int (sint a div sint b))"
    and "sint (word_of_int (sint a div sint b) :: long) = sint a div sint b"
proof -
  have b0: "b \<noteq> 0"
    using assms(2) by auto
  have "sint a sdiv sint b = sint a div sint b"
    using assms by (simp add: signed_divide_int_def sgn_if)
  then show "long_div a b = Some (word_of_int (sint a div sint b))"
    using assms b0 by (simp add: long_div_def LONG_MIN_def)
  have "sint a \<le> 9223372036854775807"
    using sint_lt [of a] by simp
  moreover have "sint a div sint b \<le> sint a"
    using zdiv_mono2 [of "sint a" 1 "sint b"] assms by simp
  moreover have "0 \<le> sint a div sint b"
    using assms by (simp add: pos_imp_zdiv_nonneg_iff)
  ultimately show "sint (word_of_int (sint a div sint b) :: long) = sint a div sint b"
    by (intro sint_of_int_small) linarith+
qed

lemma long_mod_nonneg:
  assumes "0 \<le> sint q" and "0 < sint r"
  shows "long_mod q r = Some (word_of_int (sint q mod sint r))"
    and "(word_of_int (sint q mod sint r) :: long) = 0 \<longleftrightarrow> sint q mod sint r = 0"
proof -
  have r0: "r \<noteq> 0"
    using assms(2) by auto
  have "sint q smod sint r = sint q mod sint r"
    using assms by (simp add: signed_modulo_int_def sgn_if)
  then show "long_mod q r = Some (word_of_int (sint q mod sint r))"
    using assms r0 by (simp add: long_mod_def LONG_MIN_def)
  have "sint q \<le> 9223372036854775807"
    using sint_lt [of q] by simp
  moreover have "sint q mod sint r \<le> sint q"
    using assms by (simp add: zmod_le_nonneg_dividend)
  moreover have "0 \<le> sint q mod sint r"
    using assms by simp
  ultimately have "sint (word_of_int (sint q mod sint r) :: long) = sint q mod sint r"
    by (intro sint_of_int_small) linarith+
  then show "(word_of_int (sint q mod sint r) :: long) = 0 \<longleftrightarrow> sint q mod sint r = 0"
    by (auto dest: arg_cong [where f = sint])
qed

text \<open>The throttle flag on a normalised deadline with a positive period and rate.\<close>

lemma print_info_pos:
  assumes "0 < sint (period_ns p)" and "0 < sint (print_rate p)"
    and "0 \<le> sint (tv_nsec (next_period p))"
  shows "print_info p =
     Some ((sint (tv_nsec (next_period p)) div sint (period_ns p)) mod sint (print_rate p) = 0)"
proof -
  let ?q = "word_of_int (sint (tv_nsec (next_period p)) div sint (period_ns p)) :: long"
  have r0: "print_rate p \<noteq> 0"
    using assms(2) by auto
  have d: "long_div (tv_nsec (next_period p)) (period_ns p) = Some ?q"
    and q: "sint ?q = sint (tv_nsec (next_period p)) div sint (period_ns p)"
    using long_div_nonneg [OF assms(3,1)] by simp_all
  have q0: "0 \<le> sint ?q"
    using assms(1,3) by (simp add: q pos_imp_zdiv_nonneg_iff)
  show ?thesis
    using long_mod_nonneg [OF q0 assms(2)] r0 by (simp add: print_info_def d q)
qed

lemma print_info_rate_zero:
  "print_rate p = 0 \<Longrightarrow> print_info p = Some False"
  by (simp add: print_info_def)

text \<open>A cycle on a normalised deadline with a positive period does not trap.\<close>

lemma print_info_defined:
  assumes "0 < sint (period_ns p)" and "0 \<le> sint (tv_nsec (next_period p))"
  shows "\<exists>b. print_info p = Some b"
proof (cases "print_rate p = 0")
  case True
  then have "print_info p = Some False"
    by (rule print_info_rate_zero)
  then show ?thesis ..
next
  case False
  let ?q = "word_of_int (sint (tv_nsec (next_period p)) div sint (period_ns p)) :: long"
  have d: "long_div (tv_nsec (next_period p)) (period_ns p) = Some ?q"
    and q: "sint ?q = sint (tv_nsec (next_period p)) div sint (period_ns p)"
    using long_div_nonneg [OF assms(2,1)] by simp_all
  have "0 \<le> sint ?q"
    using assms by (simp add: q pos_imp_zdiv_nonneg_iff)
  then have "sint ?q \<noteq> LONG_MIN"
    by (simp add: LONG_MIN_def)
  then show ?thesis
    using False by (simp add: print_info_def d long_mod_def)
qed

lemma do_rt_task_Some:
  "print_info p = Some b \<Longrightarrow>
   do_rt_task p start end_t =
     Some (if period_exceeded p start
           then Exceeded_line (diff_nanosec start (next_period p)) (diff_nanosec end_t start)
           else if b then Routine_line (diff_nanosec start (next_period p)) (diff_nanosec end_t start)
           else No_line)"
  by (simp add: do_rt_task_def)

lemma do_rt_task_None:
  "print_info p = None \<Longrightarrow> do_rt_task p start end_t = None"
  by (simp add: do_rt_task_def)

section \<open>Runs of the worker loop\<close>

text \<open>One iteration of the loop, with the wait written out.\<close>

lemma simple_cyclic_loop_Cons:
  "simple_cyclic_loop p ((start, end_t) # clocks) =
     (case do_rt_task p start end_t of
        None \<Rightarrow> None
      | Some r \<Rightarrow>
          (case simple_cyclic_loop (inc_period p) clocks of
             None \<Rightarrow> None
           | Some (p'', evs) \<Rightarrow>
               Some (p'', Report r #
                 Clock_nanosleep CLOCK_MONOTONIC TIMER_ABSTIME (next_period (inc_period p)) #
                 evs)))"
  by (simp add: wait_rest_of_period_def Let_def split: option.split)




text \<open>The loop returns when no cycle traps.\<close>

lemma simple_cyclic_loop_total:
  "(\<And>i. i < length clocks \<Longrightarrow> \<exists>b. print_info ((inc_period ^^ i) p) = Some b) \<Longrightarrow>
   \<exists>evs. simple_cyclic_loop p clocks = Some ((inc_period ^^ length clocks) p, evs)"
proof (induction clocks arbitrary: p)
  case Nil
  show ?case by simp
next
  case (Cons c clocks)
  obtain start end_t where c: "c = (start, end_t)"
    by (cases c)
  from Cons.prems [of 0] obtain b where b: "print_info p = Some b"
    by auto
  have "\<exists>b. print_info ((inc_period ^^ i) (inc_period p)) = Some b" if "i < length clocks" for i
    using Cons.prems [of "Suc i"] that by (simp add: funpow_swap1)
  then obtain evs where
    "simple_cyclic_loop (inc_period p) clocks =
       Some ((inc_period ^^ length clocks) (inc_period p), evs)"
    using Cons.IH by blast
  then show ?case
    by (simp add: c simple_cyclic_loop_Cons do_rt_task_Some [OF b] funpow_swap1 del: simple_cyclic_loop.simps)
qed

lemma normalised_run_defined:
  assumes "0 < sint (period_ns p)"
    and "sint (period_ns p) + 999999999 \<le> LONG_MAX"
    and "0 \<le> sint (tv_nsec (next_period p))"
    and "sint (tv_nsec (next_period p)) < 1000000000"
  shows "\<exists>b. print_info ((inc_period ^^ i) p) = Some b"
proof (rule print_info_defined)
  show "0 < sint (period_ns ((inc_period ^^ i) p))"
    using assms(1) by simp
  show "0 \<le> sint (tv_nsec (next_period ((inc_period ^^ i) p)))"
    by (simp add: inc_period_funpow_nsec [OF assms])
qed

section \<open>Counting periods within a second\<close>

lemma unique_residue:
  fixes a R :: int
  assumes "0 < R"
  shows "\<exists>!j. j < nat R \<and> (a + int j) mod R = 0"
proof (rule ex1I [of _ "nat ((- a) mod R)"])
  have "0 \<le> (- a) mod R" "(- a) mod R < R"
    using assms by simp_all
  moreover have "(a + (- a) mod R) mod R = 0"
    by (simp add: mod_add_right_eq)
  ultimately show "nat ((- a) mod R) < nat R \<and> (a + int (nat ((- a) mod R))) mod R = 0"
    by simp
next
  fix j
  assume j: "j < nat R \<and> (a + int j) mod R = 0"
  have "int j mod R = ((a + int j) - a) mod R"
    by simp
  also have "\<dots> = ((a + int j) mod R - a) mod R"
    by (simp only: mod_diff_left_eq)
  also have "\<dots> = (- a) mod R"
    using j by simp
  finally have "int j mod R = (- a) mod R" .
  moreover have "int j < R"
    using j by linarith
  then have "int j mod R = int j"
    by simp
  ultimately show "j = nat ((- a) mod R)"
    by simp
qed

lemma nsec_index:
  fixes n P :: int
  assumes "0 < P" and "P dvd 1000000000"
  shows "((n + k * P) mod 1000000000) div P = (n div P + k) mod (1000000000 div P)"
proof -
  define N where "N = 1000000000 div P"
  have PN: "1000000000 = P * N"
    using assms(2) by (simp add: N_def)
  have N0: "0 \<le> N"
    using assms(1) by (simp add: N_def pos_imp_zdiv_nonneg_iff)
  let ?a = "n + k * P"
  have "?a mod (P * N) = P * (?a div P mod N) + ?a mod P"
    using N0 by (rule zmod_zmult2_eq)
  then have "(?a mod (P * N)) div P = (P * (?a div P mod N) + ?a mod P) div P"
    by simp
  also have "\<dots> = ?a div P mod N"
    using assms(1) by simp
  also have "?a div P = n div P + k"
    using assms(1) by simp
  finally have "(?a mod (P * N)) div P = (n div P + k) mod N" .
  then show ?thesis
    by (simp only: PN [symmetric]) (simp only: N_def)
qed

lemma print_info_funpow:
  assumes "0 < sint (period_ns p)"
    and "sint (period_ns p) dvd 1000000000"
    and "0 < sint (print_rate p)"
    and "sint (print_rate p) dvd 1000000000 div sint (period_ns p)"
    and "0 \<le> sint (tv_nsec (next_period p))"
    and "sint (tv_nsec (next_period p)) < 1000000000"
  shows "print_info ((inc_period ^^ k) p) =
     Some ((sint (tv_nsec (next_period p)) div sint (period_ns p) + int k)
             mod sint (print_rate p) = 0)"
proof -
  let ?P = "sint (period_ns p)" and ?R = "sint (print_rate p)"
  let ?n = "sint (tv_nsec (next_period p))"
  let ?q = "(inc_period ^^ k) p"
  have "?P \<le> 1000000000"
    using assms(2) by (intro zdvd_imp_le) simp_all
  then have fits: "?P + 999999999 \<le> LONG_MAX"
    by (simp add: LONG_MAX_def)
  have nk: "sint (tv_nsec (next_period ?q)) = (?n + int k * ?P) mod 1000000000"
    by (rule inc_period_funpow_nsec [OF assms(1) fits assms(5,6)])
  have "print_info ?q =
      Some ((sint (tv_nsec (next_period ?q)) div sint (period_ns ?q)) mod sint (print_rate ?q) = 0)"
    by (rule print_info_pos) (simp_all add: assms(1,3) nk)
  also have "sint (tv_nsec (next_period ?q)) div sint (period_ns ?q) =
      (?n div ?P + int k) mod (1000000000 div ?P)"
    using nsec_index [OF assms(1,2), of ?n "int k"] by (simp add: nk)
  also have "(?n div ?P + int k) mod (1000000000 div ?P) mod sint (print_rate ?q) =
      (?n div ?P + int k) mod ?R"
    using assms(4) by (simp add: mod_mod_cancel)
  finally show ?thesis .
qed

section \<open>The quotient of the initialisation\<close>

lemma sint_mult_exact:
  fixes a b :: long
  shows "0 \<le> sint a * sint b \<Longrightarrow> sint a * sint b \<le> LONG_MAX \<Longrightarrow>
    sint (a * b) = sint a * sint b"
  by (simp add: sint_word_mult signed_take_bit_int_eq_self LONG_MAX_def)

text \<open>The quotient of \<open>periodic_task_init\<close> when the product does not overflow.\<close>

lemma init_quotient:
  assumes "0 < sint P" and "0 < sint R" and "sint P * sint R \<le> LONG_MAX"
  shows "long_div 1000000000 (P * R) = Some (word_of_int (1000000000 div (sint P * sint R)))"
    and "sint (word_of_int (1000000000 div (sint P * sint R)) :: long) =
           1000000000 div (sint P * sint R)"
proof -
  have pos: "0 < sint P * sint R"
    using assms(1,2) by simp
  have prod: "sint (P * R) = sint P * sint R"
    using pos assms(3) by (intro sint_mult_exact) simp_all
  have "long_div 1000000000 (P * R) =
      Some (word_of_int (sint (1000000000 :: long) div sint (P * R)))"
    by (rule long_div_nonneg) (simp_all add: prod pos)
  then show "long_div 1000000000 (P * R) =
      Some (word_of_int (1000000000 div (sint P * sint R)))"
    by (simp add: prod)
  have "sint (word_of_int (sint (1000000000 :: long) div sint (P * R)) :: long) =
      sint (1000000000 :: long) div sint (P * R)"
    by (rule long_div_nonneg) (simp_all add: prod pos)
  then show "sint (word_of_int (1000000000 div (sint P * sint R)) :: long) =
      1000000000 div (sint P * sint R)"
    by (simp add: prod)
qed

section \<open>What a cycle reports\<close>

lemma is_exceeded_report:
  "is_exceeded (if c then Exceeded_line d t else if b then Routine_line d t else No_line) = c"
  by simp







section \<open>Options and startup\<close>

lemma parse_opts_unknown:
  "Opt_unknown \<in> set opts \<Longrightarrow> parse_opts data opts = None"
proof (induction opts arbitrary: data)
  case Nil
  then show ?case by simp
next
  case (Cons x opts)
  then show ?case by (cases x) auto
qed

text \<open>When no step fails, all of them run in order and the worker is started and joined.\<close>

lemma startup_all_succeed:
  assumes "parse_opts \<lparr>td_period_ns = 1000000, td_print_per_sec = 5\<rparr> opts = Some data"
    and "find (failed ret) setup_order = None"
  shows "calls_of (fst (main opts ret)) = setup_order @ [Pthread_join]"
    and "thread_started (fst (main opts ret))"
    and "snd (main opts ret) = ret Pthread_join"
  using assms(2)
  by (auto simp: main_def assms(1) setup_order_def failed_def split: if_splits)

section \<open>The period clock\<close>

text \<open>
  Claim C2. For a positive period and a deadline whose nanosecond field lies in
  \<open>[0, 1000000000)\<close>, if adding the period does not overflow \<open>long\<close>, then after
  \<open>inc_period\<close> the nanosecond field lies in \<open>[0, 1000000000)\<close> again, however many
  whole seconds the sum holds: the loop takes them all out.
\<close>

theorem inc_period_nsec_normalized:
  assumes "0 < sint (period_ns pinfo)"
    and "0 \<le> sint (tv_nsec (next_period pinfo))"
    and "sint (tv_nsec (next_period pinfo)) < 1000000000"
    and "sint (tv_nsec (next_period pinfo)) + sint (period_ns pinfo) \<le> LONG_MAX"
  shows "0 \<le> sint (tv_nsec (next_period (inc_period pinfo))) \<and>
         sint (tv_nsec (next_period (inc_period pinfo))) < 1000000000"
proof -
  have "0 \<le> sint (tv_nsec (next_period pinfo)) + sint (period_ns pinfo)"
    using assms(1,2) by simp
  then show ?thesis
    by (simp add: inc_period_nsec assms(4))
qed

text \<open>
  A period of 2.5 s added to 0.7 s past second 5: the sum holds three whole seconds,
  and the deadline becomes 0.2 s past second 8.
\<close>

theorem inc_period_nsec_normalized_witness:
  "0 < sint (2500000000 :: long) \<and> 0 \<le> sint (700000000 :: long) \<and>
   sint (700000000 :: long) < 1000000000 \<and>
   sint (700000000 :: long) + sint (2500000000 :: long) \<le> LONG_MAX \<and>
   0 \<le> sint (tv_nsec (next_period (inc_period
     \<lparr>next_period = \<lparr>tv_sec = 5, tv_nsec = 700000000\<rparr>,
      period_ns = 2500000000, print_rate = 0\<rparr>))) \<and>
   sint (tv_nsec (next_period (inc_period
     \<lparr>next_period = \<lparr>tv_sec = 5, tv_nsec = 700000000\<rparr>,
      period_ns = 2500000000, print_rate = 0\<rparr>))) < 1000000000 \<and>
   next_period (inc_period
     \<lparr>next_period = \<lparr>tv_sec = 5, tv_nsec = 700000000\<rparr>,
      period_ns = 2500000000, print_rate = 0\<rparr>) = \<lparr>tv_sec = 8, tv_nsec = 200000000\<rparr>"
  using inc_period_nsec_normalized
    [of "\<lparr>next_period = \<lparr>tv_sec = 5, tv_nsec = 700000000\<rparr>,
      period_ns = 2500000000, print_rate = 0\<rparr>"]
  by (simp add: LONG_MAX_def inc_period_def inc_period_loop.simps word_sle_eq)

text \<open>
  Claim C1, as the code has it. Take a positive period that can be added to any
  normalised nanosecond field without overflowing \<open>long\<close>, a deadline whose nanosecond
  field lies in \<open>[0, 1000000000)\<close>, and \<open>k\<close> such that the seconds of the \<open>k\<close>-th
  deadline still fit in \<open>long\<close>. Then after \<open>k\<close> calls of \<open>inc_period\<close> the deadline,
  read as nanoseconds, is the first one plus exactly \<open>k\<close> periods; and \<open>k\<close> cycles of
  the worker loop return and leave exactly that state, whatever the clock read at the
  start and at the end of each cycle.
\<close>

theorem next_period_drift_free:
  assumes "0 < sint (period_ns p)"
    and "sint (period_ns p) + 999999999 \<le> LONG_MAX"
    and "0 \<le> sint (tv_nsec (next_period p))"
    and "sint (tv_nsec (next_period p)) < 1000000000"
    and "sint (tv_sec (next_period p)) +
       (sint (tv_nsec (next_period p)) + int k * sint (period_ns p)) div 1000000000 \<le> LONG_MAX"
    and "length clocks = k"
  shows "total_ns (next_period ((inc_period ^^ k) p)) =
       total_ns (next_period p) + int k * sint (period_ns p) \<and>
     map_option fst (simple_cyclic_loop p clocks) = Some ((inc_period ^^ k) p)"
proof -
  have "\<exists>evs. simple_cyclic_loop p clocks = Some ((inc_period ^^ length clocks) p, evs)"
    by (rule simple_cyclic_loop_total) (rule normalised_run_defined [OF assms(1-4)])
  then have "map_option fst (simple_cyclic_loop p clocks) = Some ((inc_period ^^ k) p)"
    using assms(6) by auto
  then show ?thesis
    using inc_period_funpow_total [OF assms(1-5)] by simp
qed

text \<open>
  Two cycles of 1 ms from 7.9995 s, the second one woken 5 ms late: the deadline has
  moved by 2 ms.
\<close>

theorem next_period_drift_free_witness:
  "0 < sint (1000000 :: long) \<and> sint (1000000 :: long) + 999999999 \<le> LONG_MAX \<and>
   0 \<le> sint (999500000 :: long) \<and> sint (999500000 :: long) < 1000000000 \<and>
   total_ns (next_period ((inc_period ^^ 2)
     \<lparr>next_period = \<lparr>tv_sec = 7, tv_nsec = 999500000\<rparr>,
      period_ns = 1000000, print_rate = 200\<rparr>)) =
     total_ns \<lparr>tv_sec = 7, tv_nsec = 999500000\<rparr> + 2 * sint (1000000 :: long) \<and>
   map_option fst (simple_cyclic_loop
     \<lparr>next_period = \<lparr>tv_sec = 7, tv_nsec = 999500000\<rparr>,
      period_ns = 1000000, print_rate = 200\<rparr>
     [(\<lparr>tv_sec = 7, tv_nsec = 999500100\<rparr>, \<lparr>tv_sec = 7, tv_nsec = 999500200\<rparr>),
      (\<lparr>tv_sec = 8, tv_nsec = 5500000\<rparr>, \<lparr>tv_sec = 8, tv_nsec = 5500300\<rparr>)]) =
     Some ((inc_period ^^ 2)
       \<lparr>next_period = \<lparr>tv_sec = 7, tv_nsec = 999500000\<rparr>,
        period_ns = 1000000, print_rate = 200\<rparr>)"
  using next_period_drift_free
    [of "\<lparr>next_period = \<lparr>tv_sec = 7, tv_nsec = 999500000\<rparr>,
          period_ns = 1000000, print_rate = 200\<rparr>" 2
        "[(\<lparr>tv_sec = 7, tv_nsec = 999500100\<rparr>, \<lparr>tv_sec = 7, tv_nsec = 999500200\<rparr>),
          (\<lparr>tv_sec = 8, tv_nsec = 5500000\<rparr>, \<lparr>tv_sec = 8, tv_nsec = 5500300\<rparr>)]"]
  by (simp add: LONG_MAX_def)

text \<open>
  Claim C1 as stated fails when the addition overflows. A period of
  9223372036000000000 ns (the option \<open>-p 9223372036000\<close>) is positive, and added to a
  nanosecond field of 900000000 it passes \<open>LONG_MAX\<close>: the field wraps to a negative
  number, the loop does not run, and the deadline has moved backwards.
\<close>

theorem next_period_drift_counterexample:
  "0 < sint (9223372036000000000 :: long) \<and>
   0 \<le> sint (900000000 :: long) \<and> sint (900000000 :: long) < 1000000000 \<and>
   total_ns (next_period (inc_period
     \<lparr>next_period = \<lparr>tv_sec = 100, tv_nsec = 900000000\<rparr>,
      period_ns = 9223372036000000000, print_rate = 0\<rparr>)) = - 9223371936809551616 \<and>
   total_ns (next_period (inc_period
     \<lparr>next_period = \<lparr>tv_sec = 100, tv_nsec = 900000000\<rparr>,
      period_ns = 9223372036000000000, print_rate = 0\<rparr>)) \<noteq>
     total_ns \<lparr>tv_sec = 100, tv_nsec = 900000000\<rparr> + 1 * sint (9223372036000000000 :: long)"
  by (simp add: inc_period_def inc_period_loop.simps word_sle_eq total_ns_def)

section \<open>Reporting\<close>

text \<open>
  Claim C3, as the code has it. The throttle divides the nanosecond field of the
  deadline, so it counts periods within the current second. When the period divides one
  second and \<open>print_rate\<close> divides the number of periods in a second, the flag of cycle
  \<open>k\<close> is true exactly when \<open>tv_nsec div period_ns + k\<close>, taken at the first deadline, is
  a multiple of \<open>print_rate\<close>; so among any \<open>print_rate\<close> consecutive cycles exactly one
  has the flag set.
\<close>

theorem print_info_cadence:
  assumes "0 < sint (period_ns p)"
    and "sint (period_ns p) dvd 1000000000"
    and "0 < sint (print_rate p)"
    and "sint (print_rate p) dvd 1000000000 div sint (period_ns p)"
    and "0 \<le> sint (tv_nsec (next_period p))"
    and "sint (tv_nsec (next_period p)) < 1000000000"
  shows "print_info ((inc_period ^^ k) p) =
       Some ((sint (tv_nsec (next_period p)) div sint (period_ns p) + int k)
               mod sint (print_rate p) = 0) \<and>
     (\<exists>!j. j < nat (sint (print_rate p)) \<and>
        print_info ((inc_period ^^ (k + j)) p) = Some True)"
proof -
  let ?a = "sint (tv_nsec (next_period p)) div sint (period_ns p) + int k"
  have "print_info ((inc_period ^^ (k + j)) p) = Some True \<longleftrightarrow>
      (?a + int j) mod sint (print_rate p) = 0" for j
    by (simp add: print_info_funpow [OF assms] algebra_simps)
  then have "\<exists>!j. j < nat (sint (print_rate p)) \<and>
      print_info ((inc_period ^^ (k + j)) p) = Some True"
    using unique_residue [OF assms(3), of ?a] by simp
  then show ?thesis
    using print_info_funpow [OF assms] by simp
qed

text \<open>
  The default setting, 1 ms and 5 reports per second (\<open>print_rate\<close> 200), from a
  deadline in period 123 of its second: cycle 77 reports, and it is the only one of
  the 200 cycles 77 to 276.
\<close>

theorem print_info_cadence_witness:
  "0 < sint (1000000 :: long) \<and> sint (1000000 :: long) dvd 1000000000 \<and>
   0 < sint (200 :: long) \<and> sint (200 :: long) dvd 1000000000 div sint (1000000 :: long) \<and>
   0 \<le> sint (123456789 :: long) \<and> sint (123456789 :: long) < 1000000000 \<and>
   print_info ((inc_period ^^ 77)
     \<lparr>next_period = \<lparr>tv_sec = 3, tv_nsec = 123456789\<rparr>,
      period_ns = 1000000, print_rate = 200\<rparr>) = Some True \<and>
   (\<exists>!j. j < nat (sint (200 :: long)) \<and>
      print_info ((inc_period ^^ (77 + j))
        \<lparr>next_period = \<lparr>tv_sec = 3, tv_nsec = 123456789\<rparr>,
         period_ns = 1000000, print_rate = 200\<rparr>) = Some True)"
  using print_info_cadence
    [of "\<lparr>next_period = \<lparr>tv_sec = 3, tv_nsec = 123456789\<rparr>,
          period_ns = 1000000, print_rate = 200\<rparr>" 77]
  by simp

text \<open>
  Claim C3 as stated fails when \<open>print_rate\<close> does not divide the number of periods in
  a second. With 1 ms and 3 reports per second \<open>periodic_task_init\<close> gives
  \<open>print_rate = 333\<close>; the cycle whose deadline is at 999 ms reports (999 is a
  multiple of 333), and so does the very next cycle, whose deadline is at 0 ms of the
  next second.
\<close>

theorem print_info_cadence_counterexample:
  "periodic_task_init 1000000 3 \<lparr>tv_sec = 0, tv_nsec = 999000000\<rparr> =
     Some \<lparr>next_period = \<lparr>tv_sec = 0, tv_nsec = 999000000\<rparr>,
           period_ns = 1000000, print_rate = 333\<rparr> \<and>
   print_info \<lparr>next_period = \<lparr>tv_sec = 0, tv_nsec = 999000000\<rparr>,
               period_ns = 1000000, print_rate = 333\<rparr> = Some True \<and>
   inc_period \<lparr>next_period = \<lparr>tv_sec = 0, tv_nsec = 999000000\<rparr>,
               period_ns = 1000000, print_rate = 333\<rparr> =
     \<lparr>next_period = \<lparr>tv_sec = 1, tv_nsec = 0\<rparr>, period_ns = 1000000, print_rate = 333\<rparr> \<and>
   print_info \<lparr>next_period = \<lparr>tv_sec = 1, tv_nsec = 0\<rparr>,
               period_ns = 1000000, print_rate = 333\<rparr> = Some True"
  by (simp add: periodic_task_init_def print_info_def long_div_def long_mod_def LONG_MIN_def
      inc_period_def inc_period_loop.simps word_sle_eq signed_divide_int_def
      signed_modulo_int_def)

section \<open>The report rate\<close>

text \<open>
  Claim C5, as the code has it. For a positive period and a report frequency that is
  not negative, if their product does not overflow \<open>long\<close>, \<open>periodic_task_init\<close>
  returns, stores the period and the clock reading, and sets \<open>print_rate\<close> to \<open>0\<close> when
  the frequency is \<open>0\<close> and to the integer quotient of 1000000000 by the product
  otherwise. A \<open>print_rate\<close> of \<open>0\<close> leaves the throttle flag false in every later
  cycle.
\<close>

theorem periodic_task_init_print_rate:
  assumes "0 < sint period_ns_arg"
    and "0 \<le> sint print_per_sec"
    and "sint period_ns_arg * sint print_per_sec \<le> LONG_MAX"
  shows "\<exists>pinfo. periodic_task_init period_ns_arg print_per_sec now = Some pinfo \<and>
     next_period pinfo = now \<and> period_ns pinfo = period_ns_arg \<and>
     sint (print_rate pinfo) =
       (if sint print_per_sec = 0 then 0
        else 1000000000 div (sint period_ns_arg * sint print_per_sec)) \<and>
     (print_rate pinfo = 0 \<longrightarrow> print_info ((inc_period ^^ k) pinfo) = Some False)"
proof (cases "print_per_sec = 0")
  case True
  then show ?thesis
    by (simp add: periodic_task_init_def print_info_rate_zero)
next
  case False
  then have "sint print_per_sec \<noteq> 0"
    by (simp add: signed_eq_0_iff)
  then have R: "0 < sint print_per_sec"
    using assms(2) by simp
  show ?thesis
    using init_quotient [OF assms(1) R assms(3)] False \<open>sint print_per_sec \<noteq> 0\<close>
    by (simp add: periodic_task_init_def print_info_rate_zero)
qed

text \<open>The defaults: 1 ms and 5 reports per second give \<open>print_rate = 200\<close>.\<close>

theorem periodic_task_init_print_rate_witness:
  "0 < sint (1000000 :: long) \<and> 0 \<le> sint (5 :: long) \<and>
   sint (1000000 :: long) * sint (5 :: long) \<le> LONG_MAX \<and>
   periodic_task_init 1000000 5 \<lparr>tv_sec = 42, tv_nsec = 123456789\<rparr> =
     Some \<lparr>next_period = \<lparr>tv_sec = 42, tv_nsec = 123456789\<rparr>,
           period_ns = 1000000, print_rate = 200\<rparr> \<and>
   (1000000000 :: int) div (sint (1000000 :: long) * sint (5 :: long)) = 200"
  using periodic_task_init_print_rate [of 1000000 5 "\<lparr>tv_sec = 42, tv_nsec = 123456789\<rparr>" 0]
  by (simp add: LONG_MAX_def periodic_task_init_def long_div_def LONG_MIN_def
      signed_divide_int_def)

text \<open>
  Claim C5 as stated fails when the product overflows. With the default period of
  1000000 ns and the frequency 76480200929599801 the product is 64 modulo \<open>2 ^ 64\<close>:
  \<open>print_rate\<close> becomes 15625000, where the quotient by the true product is 0.
\<close>

theorem periodic_task_init_print_rate_counterexample:
  "0 < sint (1000000 :: long) \<and> 0 \<le> sint (76480200929599801 :: long) \<and>
   periodic_task_init 1000000 76480200929599801 \<lparr>tv_sec = 42, tv_nsec = 123456789\<rparr> =
     Some \<lparr>next_period = \<lparr>tv_sec = 42, tv_nsec = 123456789\<rparr>,
           period_ns = 1000000, print_rate = 15625000\<rparr> \<and>
   (1000000000 :: int) div (sint (1000000 :: long) * sint (76480200929599801 :: long)) = 0"
  by (simp add: periodic_task_init_def long_div_def LONG_MIN_def signed_divide_int_def)

text \<open>
  Claim C10, as the code has it. For a positive period and a positive report frequency
  whose product is above 1000000000 and does not overflow \<open>long\<close>,
  \<open>periodic_task_init\<close> sets \<open>print_rate\<close> to \<open>0\<close>, and the throttle flag is false in
  every later cycle: the frequency asked for is dropped without notice.
\<close>

theorem print_rate_truncated:
  assumes "0 < sint period_ns_arg"
    and "0 < sint print_per_sec"
    and "1000000000 < sint period_ns_arg * sint print_per_sec"
    and "sint period_ns_arg * sint print_per_sec \<le> LONG_MAX"
  shows "periodic_task_init period_ns_arg print_per_sec now =
       Some \<lparr>next_period = now, period_ns = period_ns_arg, print_rate = 0\<rparr> \<and>
     print_info ((inc_period ^^ k)
       \<lparr>next_period = now, period_ns = period_ns_arg, print_rate = 0\<rparr>) = Some False"
proof -
  have "print_per_sec \<noteq> 0"
    using assms(2) by auto
  moreover have "(1000000000 :: int) div (sint period_ns_arg * sint print_per_sec) = 0"
    using assms(3) by simp
  ultimately show ?thesis
    using init_quotient(1) [OF assms(1,2,4)]
    by (simp add: periodic_task_init_def print_info_rate_zero)
qed

text \<open>The default period with 1001 reports per second.\<close>

theorem print_rate_truncated_witness:
  "0 < sint (1000000 :: long) \<and> 0 < sint (1001 :: long) \<and>
   1000000000 < sint (1000000 :: long) * sint (1001 :: long) \<and>
   sint (1000000 :: long) * sint (1001 :: long) \<le> LONG_MAX \<and>
   periodic_task_init 1000000 1001 \<lparr>tv_sec = 42, tv_nsec = 123456789\<rparr> =
     Some \<lparr>next_period = \<lparr>tv_sec = 42, tv_nsec = 123456789\<rparr>,
           period_ns = 1000000, print_rate = 0\<rparr> \<and>
   print_info ((inc_period ^^ 1000)
     \<lparr>next_period = \<lparr>tv_sec = 42, tv_nsec = 123456789\<rparr>,
      period_ns = 1000000, print_rate = 0\<rparr>) = Some False"
  using print_rate_truncated [of 1000000 1001 "\<lparr>tv_sec = 42, tv_nsec = 123456789\<rparr>" 1000]
  by (simp add: LONG_MAX_def)

text \<open>
  Claim C10 as stated fails when the product overflows. A period of 500000000 ns with
  the frequency 20211507185753197 has a product far above 1000000000, which is 256
  modulo \<open>2 ^ 64\<close>: \<open>print_rate\<close> becomes 3906250, not \<open>0\<close>.
\<close>

theorem print_rate_truncated_counterexample:
  "0 < sint (500000000 :: long) \<and> 0 < sint (20211507185753197 :: long) \<and>
   1000000000 < sint (500000000 :: long) * sint (20211507185753197 :: long) \<and>
   periodic_task_init 500000000 20211507185753197 \<lparr>tv_sec = 42, tv_nsec = 123456789\<rparr> =
     Some \<lparr>next_period = \<lparr>tv_sec = 42, tv_nsec = 123456789\<rparr>,
           period_ns = 500000000, print_rate = 3906250\<rparr> \<and>
   (3906250 :: long) \<noteq> 0"
  by (simp add: periodic_task_init_def long_div_def LONG_MIN_def signed_divide_int_def)

section \<open>The cycle\<close>

text \<open>
  Claim C4. In every cycle that \<open>do_rt_task\<close> completes, the line it prints is the red
  line of an exceeded deadline if and only if the measured \<open>delay_ns\<close> is strictly
  greater than \<open>period_ns\<close>. A delay equal to the period, and any smaller one, is not
  exceeded.
\<close>

theorem period_exceeded_iff:
  assumes "do_rt_task pinfo start end_t = Some r"
  shows "is_exceeded r \<longleftrightarrow> sint (period_ns pinfo) < diff_nanosec start (next_period pinfo)"
proof -
  obtain b where b: "print_info pinfo = Some b"
    using assms do_rt_task_None [of pinfo start end_t] by (cases "print_info pinfo") simp_all
  have "r = (if period_exceeded pinfo start
        then Exceeded_line (diff_nanosec start (next_period pinfo)) (diff_nanosec end_t start)
        else if b then Routine_line (diff_nanosec start (next_period pinfo)) (diff_nanosec end_t start)
        else No_line)"
    using assms do_rt_task_Some [OF b, of start end_t] by simp
  then have "is_exceeded r = period_exceeded pinfo start"
    by (simp only: is_exceeded_report)
  then show ?thesis
    by (simp add: period_exceeded_def)
qed

text \<open>
  A wake exactly one period late prints the routine line; one nanosecond later it
  prints the red line.
\<close>

theorem period_exceeded_iff_witness:
  "do_rt_task
     \<lparr>next_period = \<lparr>tv_sec = 10, tv_nsec = 0\<rparr>, period_ns = 1000000, print_rate = 200\<rparr>
     \<lparr>tv_sec = 10, tv_nsec = 1000000\<rparr> \<lparr>tv_sec = 10, tv_nsec = 1000500\<rparr> =
     Some (Routine_line 1000000 500) \<and>
   diff_nanosec \<lparr>tv_sec = 10, tv_nsec = 1000000\<rparr> \<lparr>tv_sec = 10, tv_nsec = 0\<rparr> =
     sint (1000000 :: long) \<and>
   \<not> is_exceeded (Routine_line 1000000 500) \<and>
   do_rt_task
     \<lparr>next_period = \<lparr>tv_sec = 10, tv_nsec = 0\<rparr>, period_ns = 1000000, print_rate = 200\<rparr>
     \<lparr>tv_sec = 10, tv_nsec = 1000001\<rparr> \<lparr>tv_sec = 10, tv_nsec = 1000501\<rparr> =
     Some (Exceeded_line 1000001 500)"
  using period_exceeded_iff
    [of "\<lparr>next_period = \<lparr>tv_sec = 10, tv_nsec = 0\<rparr>, period_ns = 1000000, print_rate = 200\<rparr>"
        "\<lparr>tv_sec = 10, tv_nsec = 1000000\<rparr>" "\<lparr>tv_sec = 10, tv_nsec = 1000500\<rparr>"
        "Routine_line 1000000 500"]
  by (simp add: do_rt_task_def print_info_def long_div_def long_mod_def LONG_MIN_def
      signed_divide_int_def signed_modulo_int_def period_exceeded_def diff_nanosec_def)






section \<open>Startup and exit codes\<close>

text \<open>
  Claim C7. Once the options are read, the startup steps run in the order memory lock,
  attribute initialisation, stack size, scheduling policy, priority, explicit
  inheritance, thread creation. When \<open>c\<close> is the first of them that fails, the calls
  made are exactly the steps before \<open>c\<close> and then \<open>c\<close>: nothing runs after it and no
  worker thread is started. The exit value is \<open>-2\<close> when \<open>c\<close> is the memory lock and the
  value the failing call returned otherwise; it is never \<open>0\<close>, and \<open>-2\<close> is no error
  number (error numbers are positive).
\<close>

theorem startup_stops_at_first_failure:
  assumes "parse_opts \<lparr>td_period_ns = 1000000, td_print_per_sec = 5\<rparr> opts = Some data"
    and "find (failed ret) setup_order = Some c"
  shows "calls_of (fst (main opts ret)) = takeWhile (\<lambda>x. \<not> failed ret x) setup_order @ [c] \<and>
     \<not> thread_started (fst (main opts ret)) \<and>
     snd (main opts ret) = (if c = Mlockall then - 2 else ret c) \<and>
     snd (main opts ret) \<noteq> 0 \<and>
     (c \<noteq> Mlockall \<and> 0 < ret c \<longrightarrow> snd (main opts ret) \<noteq> - 2)"
  using assms(2)
  by (auto simp: main_def assms(1) setup_order_def failed_def split: if_splits)

text \<open>
  \<open>pthread_create\<close> refused with error 1 (no permission for the real-time policy): all
  seven calls were made, no thread runs, the exit value is 1. \<open>mlockall\<close> failing: it is
  the only call made and the exit value is \<open>-2\<close>.
\<close>

theorem startup_stops_at_first_failure_witness:
  "parse_opts \<lparr>td_period_ns = 1000000, td_print_per_sec = 5\<rparr> [Opt_p 500000, Opt_r 10] =
     Some \<lparr>td_period_ns = 500000, td_print_per_sec = 10\<rparr> \<and>
   find (failed (\<lambda>c. if c = Pthread_create then 1 else 0)) setup_order = Some Pthread_create \<and>
   calls_of (fst (main [Opt_p 500000, Opt_r 10] (\<lambda>c. if c = Pthread_create then 1 else 0))) =
     [Mlockall, Attr_init, Attr_setstacksize, Attr_setschedpolicy, Attr_setschedparam,
      Attr_setinheritsched, Pthread_create] \<and>
   \<not> thread_started
     (fst (main [Opt_p 500000, Opt_r 10] (\<lambda>c. if c = Pthread_create then 1 else 0))) \<and>
   snd (main [Opt_p 500000, Opt_r 10] (\<lambda>c. if c = Pthread_create then 1 else 0)) = 1 \<and>
   find (failed (\<lambda>c. if c = Mlockall then - 1 else 0)) setup_order = Some Mlockall \<and>
   calls_of (fst (main [Opt_p 500000, Opt_r 10] (\<lambda>c. if c = Mlockall then - 1 else 0))) =
     [Mlockall] \<and>
   snd (main [Opt_p 500000, Opt_r 10] (\<lambda>c. if c = Mlockall then - 1 else 0)) = - 2"
  using startup_stops_at_first_failure
    [of "[Opt_p 500000, Opt_r 10]" "\<lparr>td_period_ns = 500000, td_print_per_sec = 10\<rparr>"
        "\<lambda>c. if c = Pthread_create then 1 else 0" Pthread_create]
    startup_stops_at_first_failure
    [of "[Opt_p 500000, Opt_r 10]" "\<lparr>td_period_ns = 500000, td_print_per_sec = 10\<rparr>"
        "\<lambda>c. if c = Mlockall then - 1 else 0" Mlockall]
  by (simp add: setup_order_def failed_def)

text \<open>
  Claim C8. When \<open>getopt\<close> reports an option that is not \<open>p\<close> or \<open>r\<close>, at any place
  among the options, \<open>main\<close> prints the usage line on standard error and exits with
  \<open>EXIT_FAILURE\<close>, which is not \<open>0\<close>, having made none of the startup calls: memory is
  not locked and no thread is created.
\<close>

theorem unknown_flag_exits_before_setup:
  assumes "Opt_unknown \<in> set opts"
  shows "main opts ret = ([Usage], EXIT_FAILURE) \<and> EXIT_FAILURE \<noteq> 0 \<and>
    calls_of (fst (main opts ret)) = [] \<and> \<not> thread_started (fst (main opts ret))"
  using parse_opts_unknown [OF assms] by (simp add: main_def EXIT_FAILURE_def)

text \<open>An unknown option between two good ones.\<close>

theorem unknown_flag_exits_before_setup_witness:
  "Opt_unknown \<in> set [Opt_p 2000000, Opt_unknown, Opt_r 10] \<and>
   main [Opt_p 2000000, Opt_unknown, Opt_r 10] (\<lambda>c. 0) = ([Usage], EXIT_FAILURE) \<and>
   EXIT_FAILURE \<noteq> 0 \<and>
   calls_of (fst (main [Opt_p 2000000, Opt_unknown, Opt_r 10] (\<lambda>c. 0))) = [] \<and>
   \<not> thread_started (fst (main [Opt_p 2000000, Opt_unknown, Opt_r 10] (\<lambda>c. 0)))"
  using unknown_flag_exits_before_setup [of "[Opt_p 2000000, Opt_unknown, Opt_r 10]" "\<lambda>c. 0"]
  by simp

end
